theory Spec2Isabelle
  imports Complex_Main
begin

section \<open>JavaScript values\<close>

text \<open>
  The handlers never validate a request body, so a field of the body is an arbitrary JSON
  value, or \<open>undefined\<close> when the body does not carry it (the result of the destructuring
  \<^verbatim>\<open>const { name, quantity, category, notes } = req.body\<close>). A JSON number is
  read as the real number it denotes; the server code only stores numbers and tests them
  for zero.
\<close>

datatype jsval =
    JUndefined
  | JNull
  | JBool bool
  | JNum real
  | JStr string
  | JArr "jsval list"
  | JObj "(string \<times> jsval) list"

text \<open>Truthiness of a value (\<open>ToBoolean\<close>): what \<^verbatim>\<open>||\<close> and \<^verbatim>\<open>!\<close> test.\<close>

fun truthy :: "jsval \<Rightarrow> bool" where
  "truthy JUndefined = False"
| "truthy JNull = False"
| "truthy (JBool b) = b"
| "truthy (JNum r) = (r \<noteq> 0)"
| "truthy (JStr s) = (s \<noteq> [])"
| "truthy (JArr vs) = True"
| "truthy (JObj kvs) = True"

text \<open>\<^verbatim>\<open>a || b\<close>\<close>

definition js_or :: "jsval \<Rightarrow> jsval \<Rightarrow> jsval" where
  "js_or a b = (if truthy a then a else b)"

text \<open>What the data model calls a positive integer.\<close>

fun pos_int :: "jsval \<Rightarrow> bool" where
  "pos_int (JNum r) = (0 < r \<and> r = of_int \<lfloor>r\<rfloor>)"
| "pos_int v = False"

section \<open>Grocery items and the REST handlers of server.js\<close>

text \<open>
  An element of \<^verbatim>\<open>groceryItems\<close>. The fields \<^verbatim>\<open>id\<close> and \<^verbatim>\<open>notes\<close> are
  called \<open>item_id\<close> and \<open>item_notes\<close>; a field that an object does not have reads
  as \<open>JUndefined\<close>.
\<close>

record item =
  item_id :: string
  name :: jsval
  quantity :: jsval
  category :: jsval
  item_notes :: jsval
  bought :: jsval
  createdAt :: jsval
  boughtAt :: jsval

text \<open>The destructured bodies of POST and PUT.\<close>

record post_body =
  post_name :: jsval
  post_quantity :: jsval
  post_category :: jsval
  post_notes :: jsval

record put_body =
  put_bought :: jsval
  put_quantity :: jsval
  put_notes :: jsval

datatype body =
    Json_item item
  | Json_items "item list"
  | Json_error string
  | No_body

type_synonym response = "nat \<times> body"

text \<open>\<^verbatim>\<open>Array.prototype.findIndex\<close>; the result \<open>-1\<close> is \<open>None\<close>.\<close>

fun findIndex :: "('a \<Rightarrow> bool) \<Rightarrow> 'a list \<Rightarrow> nat option" where
  "findIndex P [] = None"
| "findIndex P (x # xs) = (if P x then Some 0 else map_option Suc (findIndex P xs))"

text \<open>\<^verbatim>\<open>xs.splice(i, 1)\<close>\<close>

definition splice1 :: "nat \<Rightarrow> 'a list \<Rightarrow> 'a list" where
  "splice1 i xs = take i xs @ drop (Suc i) xs"

text \<open>
  Every handler takes the value of \<^verbatim>\<open>groceryItems\<close> and returns the response with the
  new value. \<^verbatim>\<open>uuidv4()\<close> and \<^verbatim>\<open>new Date().toISOString()\<close> are results of the
  environment, so they are arguments.
\<close>

definition get_items :: "item list \<Rightarrow> response \<times> item list" where
  "get_items groceryItems = ((200, Json_items groceryItems), groceryItems)"

definition new_item :: "string \<Rightarrow> string \<Rightarrow> post_body \<Rightarrow> item" where
  "new_item uuid now b =
     \<lparr> item_id = uuid,
       name = post_name b,
       quantity = js_or (post_quantity b) (JNum 1),
       category = js_or (post_category b) (JStr ''other''),
       item_notes = js_or (post_notes b) (JStr ''''),
       bought = JBool False,
       createdAt = JStr now,
       boughtAt = JUndefined \<rparr>"

definition post_items :: "string \<Rightarrow> string \<Rightarrow> post_body \<Rightarrow> item list \<Rightarrow> response \<times> item list" where
  "post_items uuid now b groceryItems =
     (let newItem = new_item uuid now b
      in ((201, Json_item newItem), groceryItems @ [newItem]))"

text \<open>The three conditional assignments of the update handler, in the source's order.\<close>

definition patch_fields :: "put_body \<Rightarrow> item \<Rightarrow> item" where
  "patch_fields b it =
     (let it1 = (if put_bought b \<noteq> JUndefined then it\<lparr>bought := put_bought b\<rparr> else it);
          it2 = (if put_quantity b \<noteq> JUndefined then it1\<lparr>quantity := put_quantity b\<rparr> else it1);
          it3 = (if put_notes b \<noteq> JUndefined then it2\<lparr>item_notes := put_notes b\<rparr> else it2)
      in it3)"

definition put_item :: "string \<Rightarrow> put_body \<Rightarrow> item list \<Rightarrow> response \<times> item list" where
  "put_item ident b groceryItems =
     (case findIndex (\<lambda>it. item_id it = ident) groceryItems of
        None \<Rightarrow> ((404, Json_error ''Item not found''), groceryItems)
      | Some itemIndex \<Rightarrow>
          (let items' = groceryItems[itemIndex := patch_fields b (groceryItems ! itemIndex)]
           in ((200, Json_item (items' ! itemIndex)), items')))"

definition delete_item :: "string \<Rightarrow> item list \<Rightarrow> response \<times> item list" where
  "delete_item ident groceryItems =
     (case findIndex (\<lambda>it. item_id it = ident) groceryItems of
        None \<Rightarrow> ((404, Json_error ''Item not found''), groceryItems)
      | Some itemIndex \<Rightarrow> ((204, No_body), splice1 itemIndex groceryItems))"

definition clear_bought :: "item list \<Rightarrow> response \<times> item list" where
  "clear_bought groceryItems =
     ((204, No_body), filter (\<lambda>it. \<not> truthy (bought it)) groceryItems)"

text \<open>A request to the REST surface, and a sequence of requests handled one after the other.\<close>

datatype request =
    GET
  | POST string string post_body
  | PUT string put_body
  | DELETE string
  | CLEAR

fun handle :: "request \<Rightarrow> item list \<Rightarrow> response \<times> item list" where
  "handle GET s = get_items s"
| "handle (POST uuid now b) s = post_items uuid now b s"
| "handle (PUT ident b) s = put_item ident b s"
| "handle (DELETE ident) s = delete_item ident s"
| "handle CLEAR s = clear_bought s"

fun exec :: "request list \<Rightarrow> item list \<Rightarrow> response list \<times> item list" where
  "exec [] s = ([], s)"
| "exec (r # rs) s =
     (let (resp, s') = handle r s; (resps, s'') = exec rs s' in (resp # resps, s''))"

text \<open>
  A create whose quantity is omitted, falsy or a positive integer; a patch whose quantity is
  omitted or a positive integer; any other request.
\<close>

fun quantity_valid :: "request \<Rightarrow> bool" where
  "quantity_valid (POST uuid now b) = (\<not> truthy (post_quantity b) \<or> pos_int (post_quantity b))"
| "quantity_valid (PUT ident b) = (put_quantity b = JUndefined \<or> pos_int (put_quantity b))"
| "quantity_valid r = True"

section \<open>The file-backed variant\<close>

text \<open>
  The file-backed server has the handlers of server.js, each followed by
  \<^verbatim>\<open>saveItems()\<close>, which writes \<^verbatim>\<open>groceryItems\<close> to the data file, catches its
  own errors and returns nothing: it changes neither \<^verbatim>\<open>groceryItems\<close> nor a response.
  Only its update handler differs: it maintains \<^verbatim>\<open>boughtAt\<close>, and
  \<^verbatim>\<open>delete item.boughtAt\<close> leaves the field reading as \<open>JUndefined\<close>.
\<close>

definition fb_put_item :: "string \<Rightarrow> string \<Rightarrow> put_body \<Rightarrow> item list \<Rightarrow> response \<times> item list" where
  "fb_put_item ident now b groceryItems =
     (case findIndex (\<lambda>it. item_id it = ident) groceryItems of
        None \<Rightarrow> ((404, Json_error ''Item not found''), groceryItems)
      | Some itemIndex \<Rightarrow>
          (let it = patch_fields b (groceryItems ! itemIndex);
               it' = (if put_bought b = JBool True then it\<lparr>boughtAt := JStr now\<rparr>
                      else if put_bought b = JBool False then it\<lparr>boughtAt := JUndefined\<rparr>
                      else it);
               items' = groceryItems[itemIndex := it']
           in ((200, Json_item (items' ! itemIndex)), items')))"

section \<open>The BigQuery-backed variant\<close>

text \<open>
  Each mutating handler awaits one warehouse query inside \<^verbatim>\<open>try\<close>; the argument
  \<open>ok\<close> says whether that query succeeded, and a failure is answered with 500. The list is
  the in-memory cache \<^verbatim>\<open>groceryItems\<close>.
\<close>

definition bq_new_item :: "string \<Rightarrow> string \<Rightarrow> post_body \<Rightarrow> item" where
  "bq_new_item uuid now b =
     \<lparr> item_id = uuid,
       name = post_name b,
       quantity = js_or (post_quantity b) (JNum 1),
       category = js_or (post_category b) (JStr ''other''),
       item_notes = js_or (post_notes b) (JStr ''''),
       bought = JBool False,
       createdAt = JStr now,
       boughtAt = JNull \<rparr>"

definition bq_post_items ::
  "bool \<Rightarrow> string \<Rightarrow> string \<Rightarrow> post_body \<Rightarrow> item list \<Rightarrow> response \<times> item list" where
  "bq_post_items ok uuid now b groceryItems =
     (let newItem = bq_new_item uuid now b
      in if ok then ((201, Json_item newItem), groceryItems @ [newItem])
         else ((500, Json_error ''Failed to add item''), groceryItems))"

text \<open>The cache is patched before the warehouse query is awaited, so it stays patched on 500.\<close>

definition bq_put_item ::
  "bool \<Rightarrow> string \<Rightarrow> string \<Rightarrow> put_body \<Rightarrow> item list \<Rightarrow> response \<times> item list" where
  "bq_put_item ok ident now b groceryItems =
     (case findIndex (\<lambda>it. item_id it = ident) groceryItems of
        None \<Rightarrow> ((404, Json_error ''Item not found''), groceryItems)
      | Some itemIndex \<Rightarrow>
          (let it = patch_fields b (groceryItems ! itemIndex);
               it' = (if put_bought b = JBool True then it\<lparr>boughtAt := JStr now\<rparr>
                      else if put_bought b = JBool False then it\<lparr>boughtAt := JNull\<rparr>
                      else it);
               items' = groceryItems[itemIndex := it']
           in if ok then ((200, Json_item (items' ! itemIndex)), items')
              else ((500, Json_error ''Failed to update item''), items')))"

definition bq_delete_item :: "bool \<Rightarrow> string \<Rightarrow> item list \<Rightarrow> response \<times> item list" where
  "bq_delete_item ok ident groceryItems =
     (case findIndex (\<lambda>it. item_id it = ident) groceryItems of
        None \<Rightarrow> ((404, Json_error ''Item not found''), groceryItems)
      | Some itemIndex \<Rightarrow>
          (if ok then ((204, No_body), splice1 itemIndex groceryItems)
           else ((500, Json_error ''Failed to delete item''), groceryItems)))"

definition bq_clear_bought :: "bool \<Rightarrow> item list \<Rightarrow> response \<times> item list" where
  "bq_clear_bought ok groceryItems =
     (if ok then ((204, No_body), filter (\<lambda>it. \<not> truthy (bought it)) groceryItems)
      else ((500, Json_error ''Failed to clear bought items''), groceryItems))"

text \<open>
  Listing replaces the cache by \<open>rows\<close>, the result of \<^verbatim>\<open>loadItemsFromBigQuery()\<close>,
  which is the empty list when the query fails.
\<close>

definition bq_get_items :: "item list \<Rightarrow> item list \<Rightarrow> response \<times> item list" where
  "bq_get_items rows groceryItems = ((200, Json_items rows), rows)"

section \<open>The confetti particles\<close>






section \<open>JavaScript numbers\<close>













section \<open>The confetti particles in double precision\<close>
















section \<open>Sample data\<close>

text \<open>Bodies of requests.\<close>

definition milk :: post_body where
  "milk = \<lparr> post_name = JStr ''milk'', post_quantity = JNum 2,
            post_category = JStr ''dairy'', post_notes = JUndefined \<rparr>"

definition mark_bought :: put_body where
  "mark_bought = \<lparr> put_bought = JBool True, put_quantity = JUndefined, put_notes = JUndefined \<rparr>"

definition mark_unbought :: put_body where
  "mark_unbought = \<lparr> put_bought = JBool False, put_quantity = JUndefined, put_notes = JUndefined \<rparr>"

definition mark_one :: put_body where
  "mark_one = \<lparr> put_bought = JNum 1, put_quantity = JUndefined, put_notes = JUndefined \<rparr>"

definition three_noted :: put_body where
  "three_noted = \<lparr> put_bought = JUndefined, put_quantity = JNum 3, put_notes = JStr ''sliced'' \<rparr>"

text \<open>Stored items, one not bought and one bought.\<close>

definition bread :: item where
  "bread = \<lparr> item_id = ''b7'', name = JStr ''bread'', quantity = JNum 1,
             category = JStr ''bakery'', item_notes = JStr '''', bought = JBool False,
             createdAt = JStr ''2024-01-01T10:00:00.000Z'', boughtAt = JUndefined \<rparr>"

definition cheese :: item where
  "cheese = \<lparr> item_id = ''c3'', name = JStr ''cheese'', quantity = JNum 2,
              category = JStr ''dairy'', item_notes = JStr '''', bought = JBool True,
              createdAt = JStr ''2024-01-01T10:05:00.000Z'', boughtAt = JUndefined \<rparr>"

text \<open>A sequence of requests.\<close>

definition session :: "request list" where
  "session = [POST ''u1'' ''t1'' milk,
              POST ''u2'' ''t2'' (milk\<lparr>post_quantity := JUndefined\<rparr>),
              POST ''u3'' ''t3'' (milk\<lparr>post_quantity := JNum 0\<rparr>),
              PUT ''u1'' three_noted, DELETE ''u2'', CLEAR, GET]"






section \<open>Facts about findIndex and splice\<close>

lemma findIndex_None_iff: "findIndex P xs = None \<longleftrightarrow> (\<forall>x\<in>set xs. \<not> P x)"
  by (induction xs) auto

lemma findIndex_Some_props:
  "findIndex P xs = Some i \<Longrightarrow> i < length xs \<and> P (xs ! i) \<and> (\<forall>j<i. \<not> P (xs ! j))"
proof (induction xs arbitrary: i)
  case Nil
  then show ?case by simp
next
  case (Cons x xs)
  show ?case
  proof (cases "P x")
    case True
    with Cons.prems show ?thesis by simp
  next
    case False
    with Cons.prems obtain k where k: "findIndex P xs = Some k" "i = Suc k"
      by auto
    from Cons.IH[OF k(1)] False k(2) show ?thesis
      by (auto simp: nth_Cons split: nat.splits)
  qed
qed

lemma findIndex_append_fresh:
  "\<forall>x\<in>set xs. \<not> P x \<Longrightarrow> findIndex P (xs @ [y]) = (if P y then Some (length xs) else None)"
  by (induction xs) auto

lemma findIndex_cong_map:
  "map P xs = map P ys \<Longrightarrow> findIndex P xs = findIndex P ys"
proof (induction xs arbitrary: ys)
  case Nil
  then show ?case by simp
next
  case (Cons x xs)
  then obtain y ys' where "ys = y # ys'" by (cases ys) auto
  with Cons show ?case by auto
qed

lemma splice1_append_last: "splice1 (length xs) (xs @ [y]) = xs"
  by (simp add: splice1_def)

section \<open>Deleting an unknown identifier\<close>

text \<open>
  C5. In server.js, \<^verbatim>\<open>DELETE /api/items/:id\<close> with an identifier that no item of the
  collection has answers 404 with the error body \<^verbatim>\<open>{error: 'Item not found'}\<close>, and the
  collection after the request is the collection before it.
\<close>

theorem delete_unknown_not_found:
  assumes "ident \<notin> item_id ` set groceryItems"
  shows "delete_item ident groceryItems = ((404, Json_error ''Item not found''), groceryItems)"
proof -
  from assms have "findIndex (\<lambda>it. item_id it = ident) groceryItems = None"
    by (auto simp: findIndex_None_iff)
  then show ?thesis by (simp add: delete_item_def)
qed

theorem delete_unknown_not_found_witness:
  "''zz'' \<notin> item_id ` set [bread] \<and>
   delete_item ''zz'' [bread] = ((404, Json_error ''Item not found''), [bread])"
proof -
  have h: "''zz'' \<notin> item_id ` set [bread]" by (simp add: bread_def)
  from h delete_unknown_not_found[OF h] show ?thesis by simp
qed

section \<open>Partial update\<close>

lemma patch_fields_frame:
  "item_id (patch_fields b it) = item_id it \<and> name (patch_fields b it) = name it \<and>
   category (patch_fields b it) = category it \<and> createdAt (patch_fields b it) = createdAt it \<and>
   boughtAt (patch_fields b it) = boughtAt it"
  by (simp add: patch_fields_def Let_def)

lemma patch_fields_effect:
  "bought (patch_fields b it) = (if put_bought b = JUndefined then bought it else put_bought b) \<and>
   quantity (patch_fields b it) = (if put_quantity b = JUndefined then quantity it else put_quantity b) \<and>
   item_notes (patch_fields b it) = (if put_notes b = JUndefined then item_notes it else put_notes b)"
  by (simp add: patch_fields_def Let_def)

lemma findIndex_update_same_id:
  assumes "i < length s" "item_id it' = item_id (s ! i)"
  shows "findIndex (\<lambda>it. item_id it = ident) (s[i := it']) = findIndex (\<lambda>it. item_id it = ident) s"
proof (rule findIndex_cong_map)
  show "map (\<lambda>it. item_id it = ident) (s[i := it']) = map (\<lambda>it. item_id it = ident) s"
    using assms by (simp add: map_update list_update_same_conv)
qed

text \<open>
  C8. In server.js, \<^verbatim>\<open>PUT /api/items/:id\<close> with an identifier that no item has answers
  404 with an error body and leaves the collection as it is. Otherwise it answers 200 with
  the updated item, which replaces the first item with that identifier; the update changes
  \<^verbatim>\<open>bought\<close>, \<^verbatim>\<open>quantity\<close> and \<^verbatim>\<open>notes\<close> only, each only when the body carries
  it, so that the identifier, name, category and creation timestamp of the item, and every
  other item, stay as they are.
\<close>

theorem put_item_frame:
  "(ident \<notin> item_id ` set s \<longrightarrow>
      put_item ident b s = ((404, Json_error ''Item not found''), s))
   \<and> (ident \<in> item_id ` set s \<longrightarrow>
      (\<exists>i it'. i < length s \<and> item_id (s ! i) = ident \<and> (\<forall>j<i. item_id (s ! j) \<noteq> ident)
         \<and> put_item ident b s = ((200, Json_item it'), s[i := it'])
         \<and> item_id it' = item_id (s ! i) \<and> name it' = name (s ! i)
         \<and> category it' = category (s ! i) \<and> createdAt it' = createdAt (s ! i)
         \<and> boughtAt it' = boughtAt (s ! i)
         \<and> bought it' = (if put_bought b = JUndefined then bought (s ! i) else put_bought b)
         \<and> quantity it' = (if put_quantity b = JUndefined then quantity (s ! i) else put_quantity b)
         \<and> item_notes it' = (if put_notes b = JUndefined then item_notes (s ! i) else put_notes b)))"
proof (intro conjI impI)
  assume "ident \<notin> item_id ` set s"
  then have "findIndex (\<lambda>it. item_id it = ident) s = None"
    by (auto simp: findIndex_None_iff)
  then show "put_item ident b s = ((404, Json_error ''Item not found''), s)"
    by (simp add: put_item_def)
next
  assume "ident \<in> item_id ` set s"
  then have "findIndex (\<lambda>it. item_id it = ident) s \<noteq> None"
    by (auto simp: findIndex_None_iff)
  then obtain i where i: "findIndex (\<lambda>it. item_id it = ident) s = Some i" by auto
  note pr = findIndex_Some_props[OF i]
  let ?it = "patch_fields b (s ! i)"
  have "put_item ident b s = ((200, Json_item ?it), s[i := ?it])"
    using i pr by (simp add: put_item_def Let_def)
  with pr patch_fields_frame[of b "s ! i"] patch_fields_effect[of b "s ! i"]
  show "\<exists>i it'. i < length s \<and> item_id (s ! i) = ident \<and> (\<forall>j<i. item_id (s ! j) \<noteq> ident)
         \<and> put_item ident b s = ((200, Json_item it'), s[i := it'])
         \<and> item_id it' = item_id (s ! i) \<and> name it' = name (s ! i)
         \<and> category it' = category (s ! i) \<and> createdAt it' = createdAt (s ! i)
         \<and> boughtAt it' = boughtAt (s ! i)
         \<and> bought it' = (if put_bought b = JUndefined then bought (s ! i) else put_bought b)
         \<and> quantity it' = (if put_quantity b = JUndefined then quantity (s ! i) else put_quantity b)
         \<and> item_notes it' = (if put_notes b = JUndefined then item_notes (s ! i) else put_notes b)"
    by (intro exI[of _ i] exI[of _ ?it]) simp
qed

theorem put_item_frame_witness:
  "''zz'' \<notin> item_id ` set [bread]
   \<and> put_item ''zz'' three_noted [bread] = ((404, Json_error ''Item not found''), [bread])
   \<and> ''b7'' \<in> item_id ` set [bread]
   \<and> put_item ''b7'' three_noted [bread] =
       ((200, Json_item (bread\<lparr>quantity := JNum 3, item_notes := JStr ''sliced''\<rparr>)),
        [bread\<lparr>quantity := JNum 3, item_notes := JStr ''sliced''\<rparr>])"
proof -
  have h1: "''zz'' \<notin> item_id ` set [bread]" and h2: "''b7'' \<in> item_id ` set [bread]"
    by (simp_all add: bread_def)
  from put_item_frame[of "''zz''" "[bread]" three_noted] h1
  have a: "put_item ''zz'' three_noted [bread] = ((404, Json_error ''Item not found''), [bread])"
    by blast
  from put_item_frame[of "''b7''" "[bread]" three_noted] h2
  obtain i it' where
    "i < length [bread]" "put_item ''b7'' three_noted [bread] = ((200, Json_item it'), [bread][i := it'])"
    "item_id it' = item_id ([bread] ! i)" "name it' = name ([bread] ! i)"
    "category it' = category ([bread] ! i)" "createdAt it' = createdAt ([bread] ! i)"
    "boughtAt it' = boughtAt ([bread] ! i)"
    "bought it' = (if put_bought three_noted = JUndefined then bought ([bread] ! i) else put_bought three_noted)"
    "quantity it' = (if put_quantity three_noted = JUndefined then quantity ([bread] ! i) else put_quantity three_noted)"
    "item_notes it' = (if put_notes three_noted = JUndefined then item_notes ([bread] ! i) else put_notes three_noted)"
    by blast
  then have b: "put_item ''b7'' three_noted [bread] =
       ((200, Json_item (bread\<lparr>quantity := JNum 3, item_notes := JStr ''sliced''\<rparr>)),
        [bread\<lparr>quantity := JNum 3, item_notes := JStr ''sliced''\<rparr>])"
    by (simp add: three_noted_def bread_def)
  from h1 h2 a b show ?thesis by simp
qed

section \<open>Creating an item\<close>

text \<open>
  C7, amended. \<^verbatim>\<open>POST /api/items\<close> answers 201 with the created item, and a following
  \<^verbatim>\<open>GET /api/items\<close> answers 200 with the former items followed by that item. The item
  has the generated identifier and creation timestamp, \<^verbatim>\<open>bought\<close> false, the name of the
  body, and for quantity, category and notes the value of the body when that value is
  truthy, otherwise the default 1, \<^verbatim>\<open>'other'\<close>, \<^verbatim>\<open>''\<close>: a supplied falsy value is
  replaced by the default as an omitted one is.
\<close>

theorem post_then_get:
  "exec [POST uuid now b, GET] groceryItems =
     ([(201, Json_item (new_item uuid now b)),
       (200, Json_items (groceryItems @ [new_item uuid now b]))],
      groceryItems @ [new_item uuid now b])
   \<and> item_id (new_item uuid now b) = uuid
   \<and> createdAt (new_item uuid now b) = JStr now
   \<and> bought (new_item uuid now b) = JBool False
   \<and> name (new_item uuid now b) = post_name b
   \<and> quantity (new_item uuid now b) =
       (if truthy (post_quantity b) then post_quantity b else JNum 1)
   \<and> category (new_item uuid now b) =
       (if truthy (post_category b) then post_category b else JStr ''other'')
   \<and> item_notes (new_item uuid now b) =
       (if truthy (post_notes b) then post_notes b else JStr '''')"
  by (simp add: post_items_def get_items_def new_item_def js_or_def Let_def)

theorem post_then_get_witness:
  "exec [POST ''u1'' ''t1'' milk, GET] [bread] =
     ([(201, Json_item (new_item ''u1'' ''t1'' milk)),
       (200, Json_items [bread, new_item ''u1'' ''t1'' milk])],
      [bread, new_item ''u1'' ''t1'' milk])
   \<and> new_item ''u1'' ''t1'' milk =
      \<lparr> item_id = ''u1'', name = JStr ''milk'', quantity = JNum 2,
             category = JStr ''dairy'', item_notes = JStr '''', bought = JBool False,
             createdAt = JStr ''t1'', boughtAt = JUndefined \<rparr>"
  using post_then_get[of "''u1''" "''t1''" milk "[bread]"]
  by (simp add: new_item_def milk_def js_or_def)

text \<open>
  The claim as stated fails for a body that supplies the quantity 0: the created item does
  not carry the supplied quantity but the quantity 1.
\<close>

theorem post_supplied_zero_quantity_counterexample:
  "post_items ''u1'' ''t1''
      \<lparr> post_name = JStr ''milk'', post_quantity = JNum 0,
        post_category = JUndefined, post_notes = JUndefined \<rparr> []
   = ((201, Json_item
        \<lparr> item_id = ''u1'', name = JStr ''milk'', quantity = JNum 1,
          category = JStr ''other'', item_notes = JStr '''', bought = JBool False,
          createdAt = JStr ''t1'', boughtAt = JUndefined \<rparr>),
      [\<lparr> item_id = ''u1'', name = JStr ''milk'', quantity = JNum 1,
          category = JStr ''other'', item_notes = JStr '''', bought = JBool False,
          createdAt = JStr ''t1'', boughtAt = JUndefined \<rparr>])
   \<and> JNum 1 \<noteq> JNum 0"
  by (simp add: post_items_def new_item_def js_or_def Let_def)

text \<open>
  C10, amended. A POST whose quantity is falsy (0, null, false, the empty string) has the
  response and the effect of the same POST without a quantity. In server.js, and in the
  BigQuery-backed server when the warehouse insert succeeds, the answer is 201 and the
  created item is stored and returned with quantity 1. When the insert fails, the
  BigQuery-backed server answers 500 and stores nothing.
\<close>

theorem post_falsy_quantity_is_default:
  assumes "\<not> truthy q"
  shows "post_items uuid now (b\<lparr>post_quantity := q\<rparr>) groceryItems =
           ((201, Json_item (new_item uuid now (b\<lparr>post_quantity := JUndefined\<rparr>))),
            groceryItems @ [new_item uuid now (b\<lparr>post_quantity := JUndefined\<rparr>)])
       \<and> quantity (new_item uuid now (b\<lparr>post_quantity := JUndefined\<rparr>)) = JNum 1
       \<and> post_items uuid now (b\<lparr>post_quantity := q\<rparr>) groceryItems =
           post_items uuid now (b\<lparr>post_quantity := JUndefined\<rparr>) groceryItems
       \<and> bq_post_items True uuid now (b\<lparr>post_quantity := q\<rparr>) groceryItems =
           ((201, Json_item (bq_new_item uuid now (b\<lparr>post_quantity := JUndefined\<rparr>))),
            groceryItems @ [bq_new_item uuid now (b\<lparr>post_quantity := JUndefined\<rparr>)])
       \<and> quantity (bq_new_item uuid now (b\<lparr>post_quantity := JUndefined\<rparr>)) = JNum 1
       \<and> bq_post_items ok uuid now (b\<lparr>post_quantity := q\<rparr>) groceryItems =
           bq_post_items ok uuid now (b\<lparr>post_quantity := JUndefined\<rparr>) groceryItems
       \<and> bq_post_items False uuid now (b\<lparr>post_quantity := q\<rparr>) groceryItems =
           ((500, Json_error ''Failed to add item''), groceryItems)"
  using assms
  by (simp add: post_items_def new_item_def bq_post_items_def bq_new_item_def js_or_def Let_def)

theorem post_falsy_quantity_is_default_witness:
  "\<not> truthy (JNum 0) \<and>
   post_items ''u1'' ''t1'' (milk\<lparr>post_quantity := JNum 0\<rparr>) [] =
     post_items ''u1'' ''t1'' (milk\<lparr>post_quantity := JUndefined\<rparr>) [] \<and>
   map quantity (snd (post_items ''u1'' ''t1'' (milk\<lparr>post_quantity := JNum 0\<rparr>) [])) = [JNum 1] \<and>
   map quantity (snd (bq_post_items True ''u1'' ''t1'' (milk\<lparr>post_quantity := JNum 0\<rparr>) [])) = [JNum 1]"
proof -
  have h: "\<not> truthy (JNum 0)" by simp
  from h post_falsy_quantity_is_default[OF h, of "''u1''" "''t1''" milk "[]" True]
  show ?thesis
    by (simp add: post_items_def new_item_def bq_new_item_def js_or_def milk_def Let_def)
qed

text \<open>
  The claim as stated fails in the BigQuery-backed server when the insert fails: the item
  with the falsy quantity is neither stored nor returned.
\<close>

theorem bq_post_insert_fails_counterexample:
  "bq_post_items False ''u1'' ''t1'' (milk\<lparr>post_quantity := JNum 0\<rparr>) [] =
     ((500, Json_error ''Failed to add item''), [])"
  by (simp add: bq_post_items_def Let_def)

section \<open>The round trip\<close>

text \<open>
  C6. In server.js, for every collection and every generated identifier that no item of
  the collection has, the requests create, list, patch of the created item with
  \<^verbatim>\<open>bought\<close> true, list, delete of the created item, list are answered by 201, 200, 200,
  200, 204, 200, and the collection at the end, which the last list returns, is the
  collection before the create.
\<close>

theorem create_patch_delete_round_trip:
  assumes "uuid \<notin> item_id ` set groceryItems"
  shows "exec [POST uuid now b, GET, PUT uuid mark_bought, GET, DELETE uuid, GET] groceryItems =
         ([(201, Json_item (new_item uuid now b)),
           (200, Json_items (groceryItems @ [new_item uuid now b])),
           (200, Json_item ((new_item uuid now b)\<lparr>bought := JBool True\<rparr>)),
           (200, Json_items (groceryItems @ [(new_item uuid now b)\<lparr>bought := JBool True\<rparr>])),
           (204, No_body),
           (200, Json_items groceryItems)],
          groceryItems)"
proof -
  let ?n = "new_item uuid now b"
  let ?n' = "?n\<lparr>bought := JBool True\<rparr>"
  from assms have fresh: "\<forall>x\<in>set groceryItems. \<not> item_id x = uuid" by auto
  have id_n: "item_id ?n = uuid" "item_id ?n' = uuid" by (simp_all add: new_item_def)
  have f1: "findIndex (\<lambda>it. item_id it = uuid) (groceryItems @ [?n]) = Some (length groceryItems)"
    using findIndex_append_fresh[OF fresh, of ?n] id_n by simp
  have f2: "findIndex (\<lambda>it. item_id it = uuid) (groceryItems @ [?n']) = Some (length groceryItems)"
    using findIndex_append_fresh[OF fresh, of ?n'] id_n by simp
  have p: "patch_fields mark_bought ?n = ?n'"
    by (simp add: patch_fields_def mark_bought_def)
  have s1: "post_items uuid now b groceryItems = ((201, Json_item ?n), groceryItems @ [?n])"
    by (simp add: post_items_def Let_def)
  have s3: "put_item uuid mark_bought (groceryItems @ [?n]) = ((200, Json_item ?n'), groceryItems @ [?n'])"
    using f1 p by (simp add: put_item_def)
  have s5: "delete_item uuid (groceryItems @ [?n']) = ((204, No_body), groceryItems)"
    using f2 by (simp add: delete_item_def splice1_append_last)
  show ?thesis
    by (simp add: s1 s3 s5 get_items_def)
qed

theorem create_patch_delete_round_trip_witness:
  "''u1'' \<notin> item_id ` set [bread] \<and>
   snd (exec [POST ''u1'' ''t1'' milk, GET, PUT ''u1'' mark_bought, GET, DELETE ''u1'', GET] [bread]) = [bread]"
proof -
  have h: "''u1'' \<notin> item_id ` set [bread]" by (simp add: bread_def)
  from h create_patch_delete_round_trip[OF h, of "''t1''" milk] show ?thesis by simp
qed

section \<open>The quantity of an item\<close>

lemma pos_int_truthy: "pos_int v \<Longrightarrow> truthy v"
  by (cases v) auto

lemma set_splice1_subset: "set (splice1 i xs) \<subseteq> set xs"
  using set_take_subset[of i xs] set_drop_subset[of "Suc i" xs]
  by (auto simp: splice1_def)

lemma handle_keeps_pos_quantity:
  assumes "quantity_valid r" and "\<forall>it\<in>set s. pos_int (quantity it)"
  shows "\<forall>it\<in>set (snd (handle r s)). pos_int (quantity it)"
proof (cases r)
  case GET
  with assms show ?thesis by (simp add: get_items_def)
next
  case (POST uuid now b)
  with assms(1) have "pos_int (quantity (new_item uuid now b))"
    by (auto simp: new_item_def js_or_def dest: pos_int_truthy)
  with assms(2) POST show ?thesis by (simp add: post_items_def Let_def)
next
  case (PUT ident b)
  show ?thesis
  proof (cases "findIndex (\<lambda>it. item_id it = ident) s")
    case None
    with assms(2) PUT show ?thesis by (simp add: put_item_def)
  next
    case (Some i)
    from findIndex_Some_props[OF Some] have "s ! i \<in> set s" by simp
    with assms(2) have "pos_int (quantity (s ! i))" by blast
    with assms(1) PUT have p: "pos_int (quantity (patch_fields b (s ! i)))"
      using patch_fields_effect[of b "s ! i"] by auto
    have "set (s[i := patch_fields b (s ! i)]) \<subseteq> insert (patch_fields b (s ! i)) (set s)"
      by (rule set_update_subset_insert)
    with p assms(2) have "\<forall>it\<in>set (s[i := patch_fields b (s ! i)]). pos_int (quantity it)"
      by blast
    with Some PUT show ?thesis by (simp add: put_item_def Let_def)
  qed
next
  case (DELETE ident)
  have "\<forall>it\<in>set (splice1 i s). pos_int (quantity it)" for i
  proof
    fix it
    assume "it \<in> set (splice1 i s)"
    with set_splice1_subset[of i s] have "it \<in> set s" by auto
    with assms(2) show "pos_int (quantity it)" by simp
  qed
  with assms(2) DELETE show ?thesis
    by (simp add: delete_item_def split: option.split)
next
  case CLEAR
  with assms(2) show ?thesis by (simp add: clear_bought_def)
qed

lemma exec_keeps_pos_quantity:
  "\<forall>r\<in>set rs. quantity_valid r \<Longrightarrow> \<forall>it\<in>set s. pos_int (quantity it) \<Longrightarrow>
   \<forall>it\<in>set (snd (exec rs s)). pos_int (quantity it)"
proof (induction rs arbitrary: s)
  case Nil
  then show ?case by simp
next
  case (Cons r rs)
  from Cons.prems have "\<forall>it\<in>set (snd (handle r s)). pos_int (quantity it)"
    by (intro handle_keeps_pos_quantity) simp_all
  with Cons.IH[of "snd (handle r s)"] Cons.prems(1)
  have "\<forall>it\<in>set (snd (exec rs (snd (handle r s)))). pos_int (quantity it)" by simp
  then show ?case by (simp add: case_prod_unfold Let_def)
qed

text \<open>
  C3, amended. The quantity of a created item is 1 when the body omits it. After every
  sequence of requests to server.js, starting from the empty collection, in which every
  create supplies no quantity, a falsy quantity or a positive integer and every patch
  supplies no quantity or a positive integer, the quantity of every item of the collection
  is a positive integer.
\<close>

theorem quantity_positive_when_supplied_positive:
  assumes "\<forall>r\<in>set rs. quantity_valid r"
  shows "(\<forall>it\<in>set (snd (exec rs [])). pos_int (quantity it))
       \<and> quantity (new_item uuid now (b\<lparr>post_quantity := JUndefined\<rparr>)) = JNum 1"
  using exec_keeps_pos_quantity[OF assms, of "[]"]
  by (simp add: new_item_def js_or_def)

theorem quantity_positive_when_supplied_positive_witness:
  "quantity_valid (POST ''u1'' ''t1'' milk)
   \<and> quantity_valid (POST ''u2'' ''t2'' (milk\<lparr>post_quantity := JUndefined\<rparr>))
   \<and> quantity_valid (POST ''u3'' ''t3'' (milk\<lparr>post_quantity := JNum 0\<rparr>))
   \<and> quantity_valid (PUT ''u1'' three_noted) \<and> quantity_valid (DELETE ''u2'')
   \<and> quantity_valid CLEAR \<and> quantity_valid GET
   \<and> map quantity (snd (exec session [])) = [JNum 3, JNum 1]
   \<and> pos_int (JNum 3) \<and> pos_int (JNum 1)"
proof -
  have h: "\<forall>r\<in>set session. quantity_valid r"
    by (simp add: session_def milk_def three_noted_def)
  have e: "map quantity (snd (exec session [])) = [JNum 3, JNum 1]"
    by (simp add: session_def milk_def three_noted_def post_items_def new_item_def js_or_def
        put_item_def patch_fields_def delete_item_def splice1_def clear_bought_def get_items_def
        Let_def)
  from quantity_positive_when_supplied_positive[OF h, of "''u1''" "''t1''" milk]
  have "\<forall>q\<in>set (map quantity (snd (exec session []))). pos_int q"
    by simp
  then have "pos_int (JNum 3)" "pos_int (JNum 1)"
    unfolding e by simp_all
  with h e show ?thesis by (simp add: session_def)
qed

text \<open>
  The claim as stated fails, since no handler validates the quantity: a create with the
  quantity -3 stores -3, and a patch with the quantity 0 stores 0.
\<close>

theorem quantity_not_positive_counterexample:
  "map quantity (snd (exec [POST ''u1'' ''t1'' (milk\<lparr>post_quantity := JNum (- 3)\<rparr>)] [])) = [JNum (- 3)]
   \<and> \<not> pos_int (JNum (- 3))
   \<and> map quantity (snd (exec [POST ''u1'' ''t1'' milk, PUT ''u1'' (three_noted\<lparr>put_quantity := JNum 0\<rparr>)] [])) = [JNum 0]
   \<and> \<not> pos_int (JNum 0)"
proof -
  have a: "map quantity (snd (exec [POST ''u1'' ''t1'' (milk\<lparr>post_quantity := JNum (- 3)\<rparr>)] [])) = [JNum (- 3)]"
    by (simp add: milk_def post_items_def new_item_def js_or_def Let_def)
  have b: "map quantity (snd (exec [POST ''u1'' ''t1'' milk, PUT ''u1'' (three_noted\<lparr>put_quantity := JNum 0\<rparr>)] [])) = [JNum 0]"
    by (simp add: milk_def three_noted_def post_items_def new_item_def js_or_def
        put_item_def patch_fields_def Let_def)
  have c: "\<not> pos_int (JNum (- 3))" "\<not> pos_int (JNum 0)"
    by simp_all
  from a b c show ?thesis by (intro conjI)
qed

section \<open>Clearing the bought items\<close>

lemma filter_falsy_boolean:
  "\<forall>it\<in>set s. bought it = JBool True \<or> bought it = JBool False \<Longrightarrow>
   filter (\<lambda>it. \<not> truthy (bought it)) s = filter (\<lambda>it. bought it \<noteq> JBool True) s"
  by (rule filter_cong) auto

text \<open>
  C4, amended. In server.js, \<^verbatim>\<open>DELETE /api/items/bought/clear\<close> answers 204 and keeps,
  in their order, exactly the items whose \<^verbatim>\<open>bought\<close> is falsy; it removes every item
  whose \<^verbatim>\<open>bought\<close> is truthy. When every \<^verbatim>\<open>bought\<close> is a boolean, the removed items are
  exactly those with \<^verbatim>\<open>bought\<close> true; when no \<^verbatim>\<open>bought\<close> is truthy the collection is
  unchanged. The BigQuery-backed server does the same when its warehouse query succeeds;
  when the query fails it answers 500 and leaves its cache unchanged.
\<close>

theorem clear_bought_removes_truthy:
  "fst (clear_bought s) = (204, No_body)
   \<and> snd (clear_bought s) = filter (\<lambda>it. \<not> truthy (bought it)) s
   \<and> ((\<forall>it\<in>set s. bought it = JBool True \<or> bought it = JBool False) \<longrightarrow>
        snd (clear_bought s) = filter (\<lambda>it. bought it \<noteq> JBool True) s)
   \<and> ((\<forall>it\<in>set s. \<not> truthy (bought it)) \<longrightarrow> snd (clear_bought s) = s)
   \<and> bq_clear_bought True s = clear_bought s
   \<and> bq_clear_bought False s = ((500, Json_error ''Failed to clear bought items''), s)"
  using filter_falsy_boolean[of s]
  by (simp add: clear_bought_def bq_clear_bought_def)

theorem clear_bought_removes_truthy_witness:
  "bought bread = JBool False \<and> bought cheese = JBool True
   \<and> clear_bought [bread, cheese, bread] = ((204, No_body), [bread, bread])
   \<and> \<not> truthy (bought bread)
   \<and> clear_bought [bread, bread] = ((204, No_body), [bread, bread])"
proof -
  have h: "bought bread = JBool False" "bought cheese = JBool True"
    by (simp_all add: bread_def cheese_def)
  then have h1: "\<forall>it\<in>set [bread, cheese, bread]. bought it = JBool True \<or> bought it = JBool False"
    and h2: "\<forall>it\<in>set [bread, bread]. \<not> truthy (bought it)"
    by simp_all
  from clear_bought_removes_truthy[of "[bread, cheese, bread]"] h1
  have "fst (clear_bought [bread, cheese, bread]) = (204, No_body)"
    and "snd (clear_bought [bread, cheese, bread]) =
         filter (\<lambda>it. bought it \<noteq> JBool True) [bread, cheese, bread]"
    by blast+
  with h have a: "clear_bought [bread, cheese, bread] = ((204, No_body), [bread, bread])"
    by (simp add: prod_eq_iff)
  from clear_bought_removes_truthy[of "[bread, bread]"] h2
  have "fst (clear_bought [bread, bread]) = (204, No_body)"
    and "snd (clear_bought [bread, bread]) = [bread, bread]"
    by blast+
  then have b: "clear_bought [bread, bread] = ((204, No_body), [bread, bread])"
    by (simp add: prod_eq_iff)
  from h a b show ?thesis by simp
qed

text \<open>
  The claim as stated fails in two ways. A patch with \<^verbatim>\<open>bought\<close> 1 is stored as sent, and
  the clear removes the item although its \<^verbatim>\<open>bought\<close> is not \<^verbatim>\<open>true\<close>. In the
  BigQuery-backed server a failed warehouse query is answered with 500, not 204.
\<close>

theorem clear_bought_counterexample:
  "map bought (snd (exec [POST ''u1'' ''t1'' milk, PUT ''u1'' mark_one] [])) = [JNum 1]
   \<and> JNum 1 \<noteq> JBool True
   \<and> snd (exec [POST ''u1'' ''t1'' milk, PUT ''u1'' mark_one, CLEAR] []) = []
   \<and> fst (bq_clear_bought False [cheese]) \<noteq> (204, No_body)
   \<and> snd (bq_clear_bought False [cheese]) = [cheese]"
proof -
  have a: "map bought (snd (exec [POST ''u1'' ''t1'' milk, PUT ''u1'' mark_one] [])) = [JNum 1]"
    by (simp add: milk_def mark_one_def post_items_def new_item_def js_or_def
        put_item_def patch_fields_def Let_def)
  have b: "snd (exec [POST ''u1'' ''t1'' milk, PUT ''u1'' mark_one, CLEAR] []) = []"
    by (simp add: milk_def mark_one_def post_items_def new_item_def js_or_def
        put_item_def patch_fields_def clear_bought_def Let_def)
  have c: "fst (bq_clear_bought False [cheese]) \<noteq> (204, No_body)"
       "snd (bq_clear_bought False [cheese]) = [cheese]"
    by (simp_all add: bq_clear_bought_def)
  from a b c show ?thesis by simp
qed

section \<open>The purchase timestamp\<close>

lemma fb_put_item_found:
  assumes "findIndex (\<lambda>it. item_id it = ident) s = Some i"
  shows "snd (fb_put_item ident now b s) =
           s[i := (if put_bought b = JBool True then (patch_fields b (s ! i))\<lparr>boughtAt := JStr now\<rparr>
                   else if put_bought b = JBool False then (patch_fields b (s ! i))\<lparr>boughtAt := JUndefined\<rparr>
                   else patch_fields b (s ! i))]"
    and "fst (fb_put_item ident now b s) = (200, Json_item (snd (fb_put_item ident now b s) ! i))"
  using assms findIndex_Some_props[OF assms] by (simp_all add: fb_put_item_def Let_def)

lemma bq_put_item_found:
  assumes "findIndex (\<lambda>it. item_id it = ident) s = Some i"
  shows "snd (bq_put_item ok ident now b s) =
           s[i := (if put_bought b = JBool True then (patch_fields b (s ! i))\<lparr>boughtAt := JStr now\<rparr>
                   else if put_bought b = JBool False then (patch_fields b (s ! i))\<lparr>boughtAt := JNull\<rparr>
                   else patch_fields b (s ! i))]"
    and "fst (bq_put_item ok ident now b s) =
           (if ok then (200, Json_item (snd (bq_put_item ok ident now b s) ! i))
            else (500, Json_error ''Failed to update item''))"
  using assms findIndex_Some_props[OF assms] by (simp_all add: bq_put_item_def Let_def)

text \<open>
  C1, amended. In the file-backed and in the BigQuery-backed server, for every stored
  item, a PUT whose body has \<^verbatim>\<open>bought\<close> true leaves the item with \<^verbatim>\<open>boughtAt\<close> equal to
  the timestamp of the request, and a subsequent PUT whose body has \<^verbatim>\<open>bought\<close> false
  clears it: the file-backed server deletes the field, the BigQuery-backed server sets it
  to null (in its cache, whether or not the warehouse query succeeds).
\<close>

theorem boughtAt_set_then_cleared:
  assumes found: "findIndex (\<lambda>it. item_id it = ident) s = Some i"
    and b1: "put_bought b1 = JBool True"
    and b2: "put_bought b2 = JBool False"
  shows "boughtAt (snd (fb_put_item ident now1 b1 s) ! i) = JStr now1
       \<and> boughtAt (snd (fb_put_item ident now2 b2 (snd (fb_put_item ident now1 b1 s))) ! i) = JUndefined
       \<and> boughtAt (snd (bq_put_item ok1 ident now1 b1 s) ! i) = JStr now1
       \<and> boughtAt (snd (bq_put_item ok2 ident now2 b2 (snd (bq_put_item ok1 ident now1 b1 s))) ! i) = JNull"
proof -
  note pr = findIndex_Some_props[OF found]
  let ?f = "snd (fb_put_item ident now1 b1 s)"
  let ?q = "snd (bq_put_item ok1 ident now1 b1 s)"
  have f: "?f = s[i := (patch_fields b1 (s ! i))\<lparr>boughtAt := JStr now1\<rparr>]"
    using fb_put_item_found(1)[OF found, of now1 b1] b1 by simp
  have q: "?q = s[i := (patch_fields b1 (s ! i))\<lparr>boughtAt := JStr now1\<rparr>]"
    using bq_put_item_found(1)[OF found, of ok1 now1 b1] b1 by simp
  have found_f: "findIndex (\<lambda>it. item_id it = ident) ?f = Some i"
    unfolding f using findIndex_update_same_id[of i s _ ident] pr found
    by (simp add: patch_fields_frame)
  have found_q: "findIndex (\<lambda>it. item_id it = ident) ?q = Some i"
    unfolding q using findIndex_update_same_id[of i s _ ident] pr found
    by (simp add: patch_fields_frame)
  have len: "i < length ?f" "i < length ?q"
    using pr by (simp_all add: f q)
  have 1: "boughtAt (?f ! i) = JStr now1" using pr by (simp add: f)
  have 3: "boughtAt (?q ! i) = JStr now1" using pr by (simp add: q)
  have 2: "boughtAt (snd (fb_put_item ident now2 b2 ?f) ! i) = JUndefined"
    using fb_put_item_found(1)[OF found_f, of now2 b2] b2 len by simp
  have 4: "boughtAt (snd (bq_put_item ok2 ident now2 b2 ?q) ! i) = JNull"
    using bq_put_item_found(1)[OF found_q, of ok2 now2 b2] b2 len by simp
  from 1 2 3 4 show ?thesis by (intro conjI)
qed

theorem boughtAt_set_then_cleared_witness:
  "findIndex (\<lambda>it. item_id it = ''c3'') [bread, cheese] = Some 1
   \<and> put_bought mark_bought = JBool True \<and> put_bought mark_unbought = JBool False
   \<and> boughtAt (snd (fb_put_item ''c3'' ''t5'' mark_bought [bread, cheese]) ! 1) = JStr ''t5''
   \<and> boughtAt (snd (fb_put_item ''c3'' ''t6'' mark_unbought
                      (snd (fb_put_item ''c3'' ''t5'' mark_bought [bread, cheese]))) ! 1) = JUndefined
   \<and> boughtAt (snd (bq_put_item True ''c3'' ''t5'' mark_bought [bread, cheese]) ! 1) = JStr ''t5''
   \<and> boughtAt (snd (bq_put_item True ''c3'' ''t6'' mark_unbought
                      (snd (bq_put_item True ''c3'' ''t5'' mark_bought [bread, cheese]))) ! 1) = JNull"
proof -
  have h1: "findIndex (\<lambda>it. item_id it = ''c3'') [bread, cheese] = Some 1"
    by (simp add: bread_def cheese_def)
  have h2: "put_bought mark_bought = JBool True" and h3: "put_bought mark_unbought = JBool False"
    by (simp_all add: mark_bought_def mark_unbought_def)
  from boughtAt_set_then_cleared[OF h1 h2 h3, of "''t5''" "''t6''" True True] h1 h2 h3
  show ?thesis by (intro conjI) simp_all
qed

text \<open>
  The claim does not hold in every server variant: server.js has no \<^verbatim>\<open>boughtAt\<close> at
  all, and after a PUT with \<^verbatim>\<open>bought\<close> true the item has no such field.
\<close>

theorem in_memory_boughtAt_counterexample:
  "map bought (snd (exec [POST ''u1'' ''t1'' milk, PUT ''u1'' mark_bought] [])) = [JBool True]
   \<and> map boughtAt (snd (exec [POST ''u1'' ''t1'' milk, PUT ''u1'' mark_bought] [])) = [JUndefined]"
proof -
  have a: "map bought (snd (exec [POST ''u1'' ''t1'' milk, PUT ''u1'' mark_bought] [])) = [JBool True]"
    by (simp add: milk_def mark_bought_def post_items_def new_item_def js_or_def
        put_item_def patch_fields_def Let_def)
  have b: "map boughtAt (snd (exec [POST ''u1'' ''t1'' milk, PUT ''u1'' mark_bought] [])) = [JUndefined]"
    by (simp add: milk_def mark_bought_def post_items_def new_item_def js_or_def
        put_item_def patch_fields_def Let_def)
  from a b show ?thesis by simp
qed

section \<open>One animation frame\<close>







section \<open>Rounding\<close>


























section \<open>The animation loop in double precision\<close>





subsection \<open>Particles that fade\<close>









subsection \<open>A particle that never fades\<close>








subsection \<open>The sample particles\<close>













subsection \<open>The animation stops\<close>




end
